theory Spec2Isabelle
  imports Complex_Main
begin

section \<open>Entity store (database/models.py)\<close>

text \<open>
  The three tables the matching engine reads and writes. Columns that the matcher and the
  review operations never read (plex id, year, duration, file path, timestamps, notes) are
  left out. A table is the list of its rows in primary-key order; \<open>.first()\<close> and \<open>.all()\<close>
  read it in that order. Nullable string columns are \<open>string option\<close>.
\<close>

record audiobook_item =
  ab_id :: nat
  title :: string
  author :: "string option"
  series_title :: "string option"
  series_index :: "string option"

record series =
  s_id :: nat
  series_name :: string
  s_author :: "string option"
  total_books :: int

record series_match =
  m_id :: nat
  audiobook_id :: nat
  series_id :: nat
  confidence_score :: int
  match_method :: string
  user_approved :: bool
  user_rejected :: bool

text \<open>A loop that fetches one row and mutates it: the first row satisfying \<open>P\<close> is replaced.\<close>

fun update_first :: "('a \<Rightarrow> bool) \<Rightarrow> ('a \<Rightarrow> 'a) \<Rightarrow> 'a list \<Rightarrow> 'a list" where
  "update_first P f [] = []"
| "update_first P f (x # xs) = (if P x then f x # xs else x # update_first P f xs)"

section \<open>Review operations (web\_app.py, gui/series\_review\_panel.py)\<close>

definition pending :: "series_match \<Rightarrow> bool" where
  "pending m \<longleftrightarrow> \<not> user_approved m \<and> \<not> user_rejected m"

text \<open>\<open>session.query(SeriesMatch).get(match_id)\<close>: the row with that primary key, if any.\<close>

definition get_match :: "series_match list \<Rightarrow> nat \<Rightarrow> series_match option" where
  "get_match ms i = find (\<lambda>m. m_id m = i) ms"

text \<open>\<open>approve_match\<close> / \<open>reject_match\<close>: an unknown id changes nothing.\<close>

definition approve_match :: "series_match list \<Rightarrow> nat \<Rightarrow> series_match list" where
  "approve_match ms i =
     (case get_match ms i of
        Some m \<Rightarrow> update_first (\<lambda>m. m_id m = i)
                    (\<lambda>m. m\<lparr>user_approved := True, user_rejected := False\<rparr>) ms
      | None \<Rightarrow> ms)"

definition reject_match :: "series_match list \<Rightarrow> nat \<Rightarrow> series_match list" where
  "reject_match ms i =
     (case get_match ms i of
        Some m \<Rightarrow> update_first (\<lambda>m. m_id m = i)
                    (\<lambda>m. m\<lparr>user_approved := False, user_rejected := True\<rparr>) ms
      | None \<Rightarrow> ms)"

text \<open>\<open>approve_all_matches\<close> / \<open>reject_all_matches\<close> of the web application: every pending row.\<close>

definition approve_all_matches :: "series_match list \<Rightarrow> series_match list" where
  "approve_all_matches ms =
     map (\<lambda>m. if \<not> user_approved m \<and> \<not> user_rejected m
               then m\<lparr>user_approved := True, user_rejected := False\<rparr> else m) ms"

definition reject_all_matches :: "series_match list \<Rightarrow> series_match list" where
  "reject_all_matches ms =
     map (\<lambda>m. if \<not> user_approved m \<and> \<not> user_rejected m
               then m\<lparr>user_approved := False, user_rejected := True\<rparr> else m) ms"

text \<open>
  \<open>SeriesReviewPanel._approve_selected\<close> / \<open>_reject_selected\<close>: one point mutation per
  selected id. \<open>_approve_high_confidence\<close>: the rows with score at least 90 and both flags
  false get \<open>user_approved = True\<close>; the other flag is not written.
\<close>

definition approve_selected :: "series_match list \<Rightarrow> nat list \<Rightarrow> series_match list" where
  "approve_selected ms ids = foldl approve_match ms ids"

definition reject_selected :: "series_match list \<Rightarrow> nat list \<Rightarrow> series_match list" where
  "reject_selected ms ids = foldl reject_match ms ids"

definition approve_high_confidence :: "series_match list \<Rightarrow> series_match list" where
  "approve_high_confidence ms =
     map (\<lambda>m. if confidence_score m \<ge> 90 \<and> \<not> user_approved m \<and> \<not> user_rejected m
               then m\<lparr>user_approved := True\<rparr> else m) ms"

datatype review_op =
    Approve nat
  | Reject nat
  | ApproveAll
  | RejectAll
  | ApproveHighConfidence
  | ApproveSelected "nat list"
  | RejectSelected "nat list"

fun apply_review :: "series_match list \<Rightarrow> review_op \<Rightarrow> series_match list" where
  "apply_review ms (Approve i) = approve_match ms i"
| "apply_review ms (Reject i) = reject_match ms i"
| "apply_review ms ApproveAll = approve_all_matches ms"
| "apply_review ms RejectAll = reject_all_matches ms"
| "apply_review ms ApproveHighConfidence = approve_high_confidence ms"
| "apply_review ms (ApproveSelected ids) = approve_selected ms ids"
| "apply_review ms (RejectSelected ids) = reject_selected ms ids"

definition run_reviews :: "series_match list \<Rightarrow> review_op list \<Rightarrow> series_match list" where
  "run_reviews ms ops = foldl apply_review ms ops"

text \<open>The two flags are never both set.\<close>

definition flags_ok :: "series_match \<Rightarrow> bool" where
  "flags_ok m \<longleftrightarrow> \<not> (user_approved m \<and> user_rejected m)"

text \<open>
  One row before and after a transition: either untouched, or exactly one flag is set.
\<close>

definition flag_step :: "series_match \<Rightarrow> series_match \<Rightarrow> bool" where
  "flag_step m m' \<longleftrightarrow> m' = m \<or> (user_approved m' \<noteq> user_rejected m')"

section \<open>Strings as Python and SQLite see them\<close>

text \<open>
  A \<open>char\<close> stands for one code point below 256. \<open>isspace\<close> is \<open>str.isspace\<close> (also the
  regex class \<open>\s\<close> and what \<open>str.strip()\<close> removes), \<open>isdecimal\<close> is the regex class \<open>\d\<close>,
  \<open>lower\<close> is \<open>str.lower()\<close>; on these code points they are the sets and the map below.
\<close>

definition isspace :: "char \<Rightarrow> bool" where
  "isspace c \<longleftrightarrow>
     (let n = (of_char c :: nat)
      in (9 \<le> n \<and> n \<le> 13) \<or> (28 \<le> n \<and> n \<le> 32) \<or> n = 133 \<or> n = 160)"

definition isdecimal :: "char \<Rightarrow> bool" where
  "isdecimal c \<longleftrightarrow> (let n = (of_char c :: nat) in 48 \<le> n \<and> n \<le> 57)"

definition lower_char :: "char \<Rightarrow> char" where
  "lower_char c =
     (let n = (of_char c :: nat)
      in if (65 \<le> n \<and> n \<le> 90) \<or> (192 \<le> n \<and> n \<le> 222 \<and> n \<noteq> 215)
         then char_of (n + 32) else c)"

definition lower :: "string \<Rightarrow> string" where
  "lower s = map lower_char s"

definition strip :: "string \<Rightarrow> string" where
  "strip s = rev (dropWhile isspace (rev (dropWhile isspace s)))"

text \<open>Python truthiness of an optional string: \<open>None\<close> and the empty string are false.\<close>

fun truthy :: "string option \<Rightarrow> bool" where
  "truthy None = False"
| "truthy (Some s) = (s \<noteq> [])"

text \<open>
  SQLite's \<open>LIKE\<close>, which \<open>ilike\<close> compiles to with both sides lowered: \<open>%\<close> stands for any
  run of characters, \<open>_\<close> for any one character, and letters A to Z compare without case.
\<close>

definition sql_lower_char :: "char \<Rightarrow> char" where
  "sql_lower_char c =
     (let n = (of_char c :: nat) in if 65 \<le> n \<and> n \<le> 90 then char_of (n + 32) else c)"

fun like :: "string \<Rightarrow> string \<Rightarrow> bool" where
  "like [] s = (s = [])"
| "like (p # ps) [] = (p = CHR ''%'' \<and> like ps [])"
| "like (p # ps) (c # cs) =
     (if p = CHR ''%'' then like ps (c # cs) \<or> like (p # ps) cs
      else (p = CHR ''_'' \<or> sql_lower_char p = sql_lower_char c) \<and> like ps cs)"

definition ilike :: "string \<Rightarrow> string \<Rightarrow> bool" where
  "ilike column pattern = like (map sql_lower_char pattern) (map sql_lower_char column)"

section \<open>Title patterns (SeriesMatcher.extract\_series\_info)\<close>

text \<open>
  The eleven regular expressions of the matcher are sequences of single-character classes
  under a quantifier, with two capture groups; that fragment of \<open>re\<close> is modelled. A literal
  compares without case (\<open>re.IGNORECASE\<close>), \<open>Dot\<close> is every character but the newline.
\<close>

datatype cls = Lit char | Dot | Space | Digit | InSet "char list" | NotInSet "char list"

fun cls_ok :: "cls \<Rightarrow> char \<Rightarrow> bool" where
  "cls_ok (Lit l) c = (lower_char c = lower_char l)"
| "cls_ok Dot c = (c \<noteq> CHR 0x0A)"
| "cls_ok Space c = isspace c"
| "cls_ok Digit c = isdecimal c"
| "cls_ok (InSet cs) c = (c \<in> set cs)"
| "cls_ok (NotInSet cs) c = (c \<notin> set cs)"

datatype quant = One | Opt | Star | Plus | LazyStar | LazyPlus

datatype item = Atom cls quant | GroupOpen | GroupClose

text \<open>
  Backtracking match of a pattern at the head of \<open>s\<close>, which starts at offset \<open>pos\<close> of the
  title. A greedy quantifier tries the longer run first, a lazy one the shorter; the first
  way that lets the rest of the pattern match is taken. The result is the offsets at which
  the group brackets were passed, in pattern order.
\<close>

fun re_match :: "item list \<Rightarrow> string \<Rightarrow> nat \<Rightarrow> nat list option" where
  "re_match [] s pos = Some []"
| "re_match (GroupOpen # r) s pos = map_option (Cons pos) (re_match r s pos)"
| "re_match (GroupClose # r) s pos = map_option (Cons pos) (re_match r s pos)"
| "re_match (Atom a One # r) [] pos = None"
| "re_match (Atom a One # r) (c # cs) pos =
     (if cls_ok a c then re_match r cs (Suc pos) else None)"
| "re_match (Atom a Opt # r) [] pos = re_match r [] pos"
| "re_match (Atom a Opt # r) (c # cs) pos =
     (if cls_ok a c
      then (case re_match r cs (Suc pos) of
              Some g \<Rightarrow> Some g
            | None \<Rightarrow> re_match r (c # cs) pos)
      else re_match r (c # cs) pos)"
| "re_match (Atom a Star # r) [] pos = re_match r [] pos"
| "re_match (Atom a Star # r) (c # cs) pos =
     (if cls_ok a c
      then (case re_match (Atom a Star # r) cs (Suc pos) of
              Some g \<Rightarrow> Some g
            | None \<Rightarrow> re_match r (c # cs) pos)
      else re_match r (c # cs) pos)"
| "re_match (Atom a Plus # r) [] pos = None"
| "re_match (Atom a Plus # r) (c # cs) pos =
     (if cls_ok a c then re_match (Atom a Star # r) cs (Suc pos) else None)"
| "re_match (Atom a LazyStar # r) [] pos = re_match r [] pos"
| "re_match (Atom a LazyStar # r) (c # cs) pos =
     (case re_match r (c # cs) pos of
        Some g \<Rightarrow> Some g
      | None \<Rightarrow> if cls_ok a c then re_match (Atom a LazyStar # r) cs (Suc pos) else None)"
| "re_match (Atom a LazyPlus # r) [] pos = None"
| "re_match (Atom a LazyPlus # r) (c # cs) pos =
     (if cls_ok a c then re_match (Atom a LazyStar # r) cs (Suc pos) else None)"

text \<open>\<open>re.search\<close>: the match at the leftmost offset where the pattern matches.\<close>

fun re_search_from :: "item list \<Rightarrow> string \<Rightarrow> nat \<Rightarrow> nat list option" where
  "re_search_from p [] pos = re_match p [] pos"
| "re_search_from p (c # cs) pos =
     (case re_match p (c # cs) pos of
        Some g \<Rightarrow> Some g
      | None \<Rightarrow> re_search_from p cs (Suc pos))"

definition re_search :: "item list \<Rightarrow> string \<Rightarrow> nat list option" where
  "re_search p s = re_search_from p s 0"

definition lit :: "string \<Rightarrow> item list" where
  "lit s = map (\<lambda>c. Atom (Lit c) One) s"

definition slice :: "string \<Rightarrow> nat \<Rightarrow> nat \<Rightarrow> string" where
  "slice s i j = take (j - i) (drop i s)"

text \<open>
  \<open>match.group(1).strip(), match.group(2).strip()\<close>. Every pattern below has exactly two
  groups, so a match always carries four offsets.
\<close>

fun captures :: "string \<Rightarrow> nat list \<Rightarrow> (string \<times> string) option" where
  "captures s [a, b, c, d] = Some (strip (slice s a b), strip (slice s c d))"
| "captures s _ = None"

text \<open>
  \<open>\(([^,]+?),?\s*Book\s+(\d+)\)\<close>, \<open>\(([^,]+?)\s+Book\s+(\d+)\)\<close>, \<open>\(([^,]+?)\s*#(\d+)\)\<close>,
  \<open>\(([^,]+?),?\s*Vol\.?\s+(\d+)\)\<close>, \<open>\(([^,]+?),?\s*Volume\s+(\d+)\)\<close>.
\<close>

definition parenthetical_patterns :: "item list list" where
  "parenthetical_patterns =
    [ lit ''('' @ [GroupOpen, Atom (NotInSet '','') LazyPlus, GroupClose,
        Atom (Lit CHR '','') Opt, Atom Space Star] @ lit ''Book''
        @ [Atom Space Plus, GroupOpen, Atom Digit Plus, GroupClose] @ lit '')'',
      lit ''('' @ [GroupOpen, Atom (NotInSet '','') LazyPlus, GroupClose,
        Atom Space Plus] @ lit ''Book''
        @ [Atom Space Plus, GroupOpen, Atom Digit Plus, GroupClose] @ lit '')'',
      lit ''('' @ [GroupOpen, Atom (NotInSet '','') LazyPlus, GroupClose,
        Atom Space Star] @ lit ''#'' @ [GroupOpen, Atom Digit Plus, GroupClose] @ lit '')'',
      lit ''('' @ [GroupOpen, Atom (NotInSet '','') LazyPlus, GroupClose,
        Atom (Lit CHR '','') Opt, Atom Space Star] @ lit ''Vol''
        @ [Atom (Lit CHR ''.'') Opt, Atom Space Plus, GroupOpen, Atom Digit Plus, GroupClose]
        @ lit '')'',
      lit ''('' @ [GroupOpen, Atom (NotInSet '','') LazyPlus, GroupClose,
        Atom (Lit CHR '','') Opt, Atom Space Star] @ lit ''Volume''
        @ [Atom Space Plus, GroupOpen, Atom Digit Plus, GroupClose] @ lit '')'' ]"

text \<open>
  \<open>self.series_patterns\<close>: \<open>(.+?)\s*[,:-]\s*Book\s+(\d+)\<close>, \<open>(.+?)\s*[,:-]\s*Vol\.?\s+(\d+)\<close>,
  \<open>(.+?)\s*[,:-]\s*Volume\s+(\d+)\<close>, \<open>(.+?)\s*\(Book\s+(\d+)\)\<close>, \<open>(.+?)\s*#(\d+)\<close>,
  \<open>(.+?)\s*-\s*(\d+)\<close>.
\<close>

definition series_patterns :: "item list list" where
  "series_patterns =
    [ [GroupOpen, Atom Dot LazyPlus, GroupClose, Atom Space Star, Atom (InSet '',:-'') One,
        Atom Space Star] @ lit ''Book''
        @ [Atom Space Plus, GroupOpen, Atom Digit Plus, GroupClose],
      [GroupOpen, Atom Dot LazyPlus, GroupClose, Atom Space Star, Atom (InSet '',:-'') One,
        Atom Space Star] @ lit ''Vol''
        @ [Atom (Lit CHR ''.'') Opt, Atom Space Plus, GroupOpen, Atom Digit Plus, GroupClose],
      [GroupOpen, Atom Dot LazyPlus, GroupClose, Atom Space Star, Atom (InSet '',:-'') One,
        Atom Space Star] @ lit ''Volume''
        @ [Atom Space Plus, GroupOpen, Atom Digit Plus, GroupClose],
      [GroupOpen, Atom Dot LazyPlus, GroupClose, Atom Space Star] @ lit ''(Book''
        @ [Atom Space Plus, GroupOpen, Atom Digit Plus, GroupClose] @ lit '')'',
      [GroupOpen, Atom Dot LazyPlus, GroupClose, Atom Space Star] @ lit ''#''
        @ [GroupOpen, Atom Digit Plus, GroupClose],
      [GroupOpen, Atom Dot LazyPlus, GroupClose, Atom Space Star] @ lit ''-''
        @ [Atom Space Star, GroupOpen, Atom Digit Plus, GroupClose] ]"

text \<open>The \<open>for pattern in ...\<close> loops: the first pattern that matches returns.\<close>

fun first_match :: "item list list \<Rightarrow> string \<Rightarrow> (string \<times> string) option" where
  "first_match [] t = None"
| "first_match (p # ps) t =
     (case re_search p t of
        Some g \<Rightarrow> captures t g
      | None \<Rightarrow> first_match ps t)"

text \<open>\<open>None\<close> is the source's \<open>(None, None)\<close>.\<close>

definition extract_series_info :: "string \<Rightarrow> (string \<times> string) option" where
  "extract_series_info t =
     (if t = [] then None
      else case first_match parenthetical_patterns t of
             Some r \<Rightarrow> Some r
           | None \<Rightarrow> first_match series_patterns t)"


section \<open>Series and membership upserts (SeriesMatcher)\<close>

record db =
  audiobooks :: "audiobook_item list"
  series_tbl :: "series list"
  matches :: "series_match list"

text \<open>The integer primary key SQLite gives a new row: one more than the largest in use.\<close>

definition next_id :: "nat list \<Rightarrow> nat" where
  "next_id ids = Suc (fold max ids 0)"

text \<open>
  \<open>find_or_create_series\<close>: the first series whose name is \<open>LIKE '%name%'\<close> is returned as
  it is; otherwise a series with \<open>total_books = 0\<close> is added.
\<close>

definition find_or_create_series ::
  "series list \<Rightarrow> string \<Rightarrow> string option \<Rightarrow> series \<times> series list" where
  "find_or_create_series ss name auth =
     (case find (\<lambda>s. ilike (series_name s) (''%'' @ name @ ''%'')) ss of
        Some s \<Rightarrow> (s, ss)
      | None \<Rightarrow>
          (let s = \<lparr>s_id = next_id (map s_id ss), series_name = name, s_author = auth,
                    total_books = 0\<rparr>
           in (s, ss @ [s])))"

text \<open>
  \<open>match_audiobook_to_series\<close>: an existing membership of the pair gets the new score and
  method; otherwise one is inserted, with the column defaults for the review flags.
\<close>

definition match_audiobook_to_series ::
  "series_match list \<Rightarrow> nat \<Rightarrow> nat \<Rightarrow> int \<Rightarrow> string \<Rightarrow> series_match list" where
  "match_audiobook_to_series ms a s confidence method =
     (case find (\<lambda>m. audiobook_id m = a \<and> series_id m = s) ms of
        Some existing \<Rightarrow>
          update_first (\<lambda>m. audiobook_id m = a \<and> series_id m = s)
            (\<lambda>m. m\<lparr>confidence_score := confidence, match_method := method\<rparr>) ms
      | None \<Rightarrow>
          ms @ [\<lparr>m_id = next_id (map m_id ms), audiobook_id = a, series_id = s,
                 confidence_score = confidence, match_method = method,
                 user_approved = False, user_rejected = False\<rparr>])"

text \<open>\<open>audiobook.series_index = v\<close> on the row of the record being processed.\<close>

definition set_series_index :: "db \<Rightarrow> nat \<Rightarrow> string \<Rightarrow> db" where
  "set_series_index d a v =
     d\<lparr>audiobooks := update_first (\<lambda>b. ab_id b = a) (\<lambda>b. b\<lparr>series_index := Some v\<rparr>)
                        (audiobooks d)\<rparr>"

text \<open>
  A stage that has picked a series name: resolve the series, upsert the membership.
  The source writes these two calls out in each of the three name-based stages.
\<close>

definition attach :: "db \<Rightarrow> audiobook_item \<Rightarrow> string \<Rightarrow> int \<Rightarrow> string \<Rightarrow> db" where
  "attach d a name confidence method =
     (let (s, ss) = find_or_create_series (series_tbl d) name (author a)
      in d\<lparr>series_tbl := ss,
            matches := match_audiobook_to_series (matches d) (ab_id a) (s_id s)
                         confidence method\<rparr>)"

section \<open>Fuzzy fallback (SeriesMatcher.\_fuzzy\_match\_to\_existing\_series)\<close>

text \<open>
  \<open>fuzz.partial_ratio\<close> and \<open>fuzz.ratio\<close> belong to the fuzzywuzzy library, which is not
  part of the repository; the matcher takes them as parameters \<open>pr\<close> and \<open>ra\<close>.
\<close>

type_synonym similarity = "string \<Rightarrow> string \<Rightarrow> int"

definition fuzzy_score :: "similarity \<Rightarrow> similarity \<Rightarrow> audiobook_item \<Rightarrow> series \<Rightarrow> int" where
  "fuzzy_score pr ra a s =
     (let score = pr (lower (title a)) (lower (series_name s))
      in if truthy (author a) \<and> truthy (s_author s)
            \<and> ra (lower (the (author a))) (lower (the (s_author s))) > 80
         then score + 10 else score)"

text \<open>One turn of the loop over all series, on \<open>(best_match, best_score)\<close>.\<close>

definition fuzzy_step ::
  "similarity \<Rightarrow> similarity \<Rightarrow> int \<Rightarrow> audiobook_item \<Rightarrow>
   series option \<times> int \<Rightarrow> series \<Rightarrow> series option \<times> int" where
  "fuzzy_step pr ra threshold a best s =
     (let score = fuzzy_score pr ra a s
      in if score > snd best \<and> score \<ge> threshold then (Some s, score) else best)"

definition fuzzy_best ::
  "similarity \<Rightarrow> similarity \<Rightarrow> int \<Rightarrow> audiobook_item \<Rightarrow> series list \<Rightarrow>
   series option \<times> int" where
  "fuzzy_best pr ra threshold a ss = foldl (fuzzy_step pr ra threshold a) (None, 0) ss"

definition fuzzy_match_to_existing_series ::
  "similarity \<Rightarrow> similarity \<Rightarrow> int \<Rightarrow> db \<Rightarrow> audiobook_item \<Rightarrow> db" where
  "fuzzy_match_to_existing_series pr ra threshold d a =
     (case fuzzy_best pr ra threshold a (series_tbl d) of
        (Some best_match, best_score) \<Rightarrow>
          (let d' = d\<lparr>matches := match_audiobook_to_series (matches d) (ab_id a)
                                     (s_id best_match) best_score ''fuzzy_match''\<rparr>
           in case extract_series_info (title a) of
                Some (_, idx) \<Rightarrow> if idx \<noteq> [] then set_series_index d' (ab_id a) idx else d'
              | None \<Rightarrow> d')
      | (None, _) \<Rightarrow> d)"

section \<open>The matching pipeline (SeriesMatcher.match\_all\_audiobooks)\<close>

text \<open>
  What \<open>lookup_by_title_author\<close> returns: \<open>None\<close>, or a dictionary with the keys
  \<open>series_name\<close> and \<open>series_index\<close>, either of which may be null.
\<close>

record ext_result =
  res_series_name :: "string option"
  res_series_index :: "string option"

text \<open>
  The matcher object. \<open>series_lookup\<close> is the state of the lookup client when one was
  configured. The client itself is the parameter \<open>lk\<close> of the pipeline: a call takes the
  client's state, a title and an author, and returns the result with the new state.
\<close>

record 'l series_matcher =
  confidence_threshold :: int
  use_external_lookup :: bool
  series_lookup :: "'l option"

type_synonym 'l lookup = "'l \<Rightarrow> string \<Rightarrow> string option \<Rightarrow> ext_result option \<times> 'l"

text \<open>
  The loop body after the external block: embedded series title, title pattern, fuzzy
  fallback. The flag is whether \<open>matches_found\<close> is incremented.
\<close>

definition match_local ::
  "similarity \<Rightarrow> similarity \<Rightarrow> int \<Rightarrow> db \<Rightarrow> audiobook_item \<Rightarrow> bool \<times> db" where
  "match_local pr ra threshold d a =
     (if truthy (series_title a)
      then (True, attach d a (the (series_title a)) 95 ''metadata'')
      else case extract_series_info (title a) of
             Some (name, idx) \<Rightarrow>
               if name \<noteq> []
               then (True, set_series_index (attach d a name 85 ''title_pattern'') (ab_id a) idx)
               else (False, fuzzy_match_to_existing_series pr ra threshold d a)
           | None \<Rightarrow> (False, fuzzy_match_to_existing_series pr ra threshold d a))"

text \<open>The external block when the lookup found a series name.\<close>

definition match_external :: "db \<Rightarrow> audiobook_item \<Rightarrow> ext_result \<Rightarrow> db" where
  "match_external d a r =
     (let d' = attach d a (the (res_series_name r)) 98 ''external_api''
      in if truthy (res_series_index r)
         then set_series_index d' (ab_id a) (the (res_series_index r))
         else case extract_series_info (title a) of
                Some (_, idx) \<Rightarrow> if idx \<noteq> [] then set_series_index d' (ab_id a) idx else d'
              | None \<Rightarrow> d')"

text \<open>One turn of the loop over the audiobooks.\<close>

definition match_one ::
  "'l lookup \<Rightarrow> similarity \<Rightarrow> similarity \<Rightarrow> 'l series_matcher \<times> db \<Rightarrow> audiobook_item \<Rightarrow>
   bool \<times> 'l series_matcher \<times> db" where
  "match_one lk pr ra st a =
     (let (m, d) = st
      in case (if use_external_lookup m then series_lookup m else None) of
           Some l \<Rightarrow>
             (let (external_result, l') = lk l (title a) (author a);
                  m' = m\<lparr>series_lookup := Some l'\<rparr>
              in case external_result of
                   Some r \<Rightarrow>
                     if truthy (res_series_name r)
                     then (True, m', match_external d a r)
                     else (let (found, d') = match_local pr ra (confidence_threshold m) d a
                           in (found, m', d'))
                 | None \<Rightarrow>
                     (let (found, d') = match_local pr ra (confidence_threshold m) d a
                      in (found, m', d')))
         | None \<Rightarrow>
             (let (found, d') = match_local pr ra (confidence_threshold m) d a
              in (found, m, d')))"

definition match_loop ::
  "'l lookup \<Rightarrow> similarity \<Rightarrow> similarity \<Rightarrow> nat \<times> 'l series_matcher \<times> db \<Rightarrow>
   audiobook_item \<Rightarrow> nat \<times> 'l series_matcher \<times> db" where
  "match_loop lk pr ra acc a =
     (let (matches_found, st) = acc;
          (found, st') = match_one lk pr ra st a
      in (if found then matches_found + 1 else matches_found, st'))"

text \<open>
  \<open>match_all_audiobooks\<close>: the records are read once, before the loop; the result is
  \<open>matches_found\<close> with the matcher and the store as the run leaves them.
\<close>

definition match_all_audiobooks ::
  "'l lookup \<Rightarrow> similarity \<Rightarrow> similarity \<Rightarrow> 'l series_matcher \<times> db \<Rightarrow>
   nat \<times> 'l series_matcher \<times> db" where
  "match_all_audiobooks lk pr ra st = foldl (match_loop lk pr ra) (0, st) (audiobooks (snd st))"

section \<open>External lookup with cache and cooldown (SeriesLookup.\_lookup\_google\_books)\<close>

text \<open>
  What the network does when a request is sent: status 429, another error status raised by
  \<open>raise_for_status\<close>, any other exception (timeout, connection error, malformed body), or
  a body, which yields a result dictionary when its first item carries \<open>seriesInfo\<close>.
\<close>

datatype http_outcome = Status429 | HttpError nat | Failure | Ok "ext_result option"

text \<open>
  One call as the environment shapes it: the clock readings of \<open>time.time()\<close> on entry,
  when the request is sent (after the wait for the minimum interval) and when the
  rate-limit signal is handled, in seconds, and the outcome of the request if one is sent.
\<close>

record call_env =
  now :: real
  t_sent :: real
  t_back :: real
  response :: http_outcome

text \<open>
  The client's mutable attributes. \<open>requests\<close> is not in the source: it counts the calls of
  \<open>session.get\<close>, so that "no request was issued" can be stated.
\<close>

record google_client =
  cache :: "string \<rightharpoonup> ext_result option"
  last_request_time :: real
  rate_limited_until :: real
  requests :: nat

text \<open>The f-string \<open>{title}:{author}\<close>; a missing author prints as \<open>None\<close>.\<close>

definition cache_key :: "string \<Rightarrow> string option \<Rightarrow> string" where
  "cache_key t a = t @ '':'' @ (case a of None \<Rightarrow> ''None'' | Some x \<Rightarrow> x)"

definition lookup_google_books ::
  "google_client \<Rightarrow> string \<Rightarrow> string option \<Rightarrow> call_env \<Rightarrow> ext_result option \<times> google_client"
where
  "lookup_google_books st t a e =
     (let key = cache_key t a
      in case cache st key of
           Some cached \<Rightarrow> (cached, st)
         | None \<Rightarrow>
             if now e < rate_limited_until st
             then (None, st\<lparr>cache := (cache st)(key \<mapsto> None)\<rparr>)
             else
               (let st1 = st\<lparr>last_request_time := t_sent e, requests := Suc (requests st)\<rparr>
                in case response e of
                     Status429 \<Rightarrow>
                       (None, st1\<lparr>rate_limited_until := t_back e + 60,
                                   cache := (cache st1)(key \<mapsto> None)\<rparr>)
                   | HttpError code \<Rightarrow>
                       (None, (if code = 429 then st1\<lparr>rate_limited_until := t_back e + 60\<rparr>
                               else st1)\<lparr>cache := (cache st1)(key \<mapsto> None)\<rparr>)
                   | Failure \<Rightarrow> (None, st1\<lparr>cache := (cache st1)(key \<mapsto> None)\<rparr>)
                   | Ok body \<Rightarrow> (body, st1\<lparr>cache := (cache st1)(key \<mapsto> body)\<rparr>)))"

text \<open>The client after a sequence of calls.\<close>

definition run_lookups ::
  "google_client \<Rightarrow> (string \<times> string option \<times> call_env) list \<Rightarrow> google_client" where
  "run_lookups st calls = foldl (\<lambda>s (t, a, e). snd (lookup_google_books s t a e)) st calls"

section \<open>Notions used in the statements about the pipeline\<close>

text \<open>The series table only grows, and by series whose book count is 0.\<close>

definition grows :: "series list \<Rightarrow> series list \<Rightarrow> bool" where
  "grows ss ss' \<longleftrightarrow> (\<exists>new. ss' = ss @ new \<and> list_all (\<lambda>s. total_books s = 0) new)"

text \<open>The (record, series) pair of each membership, in table order.\<close>

definition pairs :: "series_match list \<Rightarrow> (nat \<times> nat) list" where
  "pairs ms = map (\<lambda>m. (audiobook_id m, series_id m)) ms"

text \<open>The membership table after at most one upsert for record \<open>a\<close>.\<close>

definition upserted :: "nat \<Rightarrow> series_match list \<Rightarrow> series_match list \<Rightarrow> bool" where
  "upserted a ms ms' \<longleftrightarrow>
     ms' = ms \<or> (\<exists>s c meth. ms' = match_audiobook_to_series ms a s c meth)"


text \<open>
  \<open>SeriesMatcher.__init__\<close> with its default arguments: threshold 70, external lookup
  wanted; \<open>l\<close> is the lookup client, present when the configuration enables one.
\<close>

definition new_matcher :: "'l option \<Rightarrow> 'l series_matcher" where
  "new_matcher l = \<lparr>confidence_threshold = 70, use_external_lookup = True, series_lookup = l\<rparr>"

text \<open>
  The external stage of one loop turn, as a value: the dictionary it got when the lookup
  is enabled, configured and returned a non-empty series name.
\<close>

definition external_hit :: "'l lookup \<Rightarrow> 'l series_matcher \<Rightarrow> audiobook_item \<Rightarrow> ext_result option" where
  "external_hit lk m a =
     (case (if use_external_lookup m then series_lookup m else None) of
        Some l \<Rightarrow>
          (case fst (lk l (title a) (author a)) of
             Some r \<Rightarrow> if truthy (res_series_name r) then Some r else None
           | None \<Rightarrow> None)
      | None \<Rightarrow> None)"

text \<open>
  Both similarity functions of the library return 100 on two identical non-empty strings.
  The worked examples compare only such strings, and run the matcher with this function
  in place of either.
\<close>

definition identical_100 :: similarity where
  "identical_100 x y = (if x = y \<and> x \<noteq> [] then 100 else 0)"

section \<open>Review state machine: proofs\<close>

lemma update_first_all2:
  assumes "\<And>x. R x x" and "\<And>x. P x \<Longrightarrow> R x (f x)"
  shows "list_all2 R xs (update_first P f xs)"
  using assms by (induction xs) (auto simp: list_all2_refl)

lemma approve_match_step: "list_all2 flag_step ms (approve_match ms i)"
  unfolding approve_match_def
  by (auto split: option.splits simp: list_all2_refl flag_step_def intro!: update_first_all2)

lemma reject_match_step: "list_all2 flag_step ms (reject_match ms i)"
  unfolding reject_match_def
  by (auto split: option.splits simp: list_all2_refl flag_step_def intro!: update_first_all2)

lemma map_all2: "(\<And>x. R x (f x)) \<Longrightarrow> list_all2 R xs (map f xs)"
  by (induction xs) auto

lemma approve_all_step: "list_all2 flag_step ms (approve_all_matches ms)"
  unfolding approve_all_matches_def by (rule map_all2) (simp add: flag_step_def)

lemma reject_all_step: "list_all2 flag_step ms (reject_all_matches ms)"
  unfolding reject_all_matches_def by (rule map_all2) (simp add: flag_step_def)

lemma approve_high_step: "list_all2 flag_step ms (approve_high_confidence ms)"
  unfolding approve_high_confidence_def by (rule map_all2) (simp add: flag_step_def)

lemma flags_ok_step: "flags_ok m \<Longrightarrow> flag_step m m' \<Longrightarrow> flags_ok m'"
  by (auto simp: flags_ok_def flag_step_def)

lemma flags_ok_all2:
  "list_all2 flag_step ms ms' \<Longrightarrow> list_all flags_ok ms \<Longrightarrow> list_all flags_ok ms'"
  by (induction ms ms' rule: list_all2_induct) (auto intro: flags_ok_step)

lemma approve_match_ok: "list_all flags_ok ms \<Longrightarrow> list_all flags_ok (approve_match ms i)"
  by (rule flags_ok_all2 [OF approve_match_step])

lemma reject_match_ok: "list_all flags_ok ms \<Longrightarrow> list_all flags_ok (reject_match ms i)"
  by (rule flags_ok_all2 [OF reject_match_step])

lemma approve_selected_ok:
  "list_all flags_ok ms \<Longrightarrow> list_all flags_ok (approve_selected ms ids)"
  unfolding approve_selected_def
  by (induction ids arbitrary: ms) (auto intro: approve_match_ok)

lemma reject_selected_ok:
  "list_all flags_ok ms \<Longrightarrow> list_all flags_ok (reject_selected ms ids)"
  unfolding reject_selected_def
  by (induction ids arbitrary: ms) (auto intro: reject_match_ok)

lemma apply_review_ok:
  assumes "list_all flags_ok ms"
  shows "list_all flags_ok (apply_review ms op)"
proof (cases op)
  case (Approve i)
  with assms show ?thesis by (simp add: approve_match_ok)
next
  case (Reject i)
  with assms show ?thesis by (simp add: reject_match_ok)
next
  case ApproveAll
  with assms show ?thesis using flags_ok_all2 [OF approve_all_step] by simp
next
  case RejectAll
  with assms show ?thesis using flags_ok_all2 [OF reject_all_step] by simp
next
  case ApproveHighConfidence
  with assms show ?thesis using flags_ok_all2 [OF approve_high_step] by simp
next
  case (ApproveSelected ids)
  with assms show ?thesis by (simp add: approve_selected_ok)
next
  case (RejectSelected ids)
  with assms show ?thesis by (simp add: reject_selected_ok)
qed

lemma run_reviews_ok: "list_all flags_ok ms \<Longrightarrow> list_all flags_ok (run_reviews ms ops)"
  unfolding run_reviews_def
  by (induction ops arbitrary: ms) (auto intro: apply_review_ok)

lemma pending_flags_ok: "pending m \<Longrightarrow> flags_ok m"
  by (simp add: pending_def flags_ok_def)

lemma find_update_first:
  "find P xs = Some x \<Longrightarrow> (\<And>y. P y \<Longrightarrow> P (f y)) \<Longrightarrow> find P (update_first P f xs) = Some (f x)"
  by (induction xs) (auto split: if_splits)

lemma get_approve_match:
  "get_match ms i = Some m \<Longrightarrow>
   get_match (approve_match ms i) i = Some (m\<lparr>user_approved := True, user_rejected := False\<rparr>)"
  unfolding approve_match_def get_match_def
  by (simp add: find_update_first)

lemma get_reject_match:
  "get_match ms i = Some m \<Longrightarrow>
   get_match (reject_match ms i) i = Some (m\<lparr>user_approved := False, user_rejected := True\<rparr>)"
  unfolding reject_match_def get_match_def
  by (simp add: find_update_first)

lemma flag_step_trans: "flag_step a b \<Longrightarrow> flag_step b c \<Longrightarrow> flag_step a c"
  by (auto simp: flag_step_def)

lemma all2_flag_step_trans:
  "list_all2 flag_step xs ys \<Longrightarrow> list_all2 flag_step ys zs \<Longrightarrow> list_all2 flag_step xs zs"
  by (rule list_all2_trans [where ?P1.0 = flag_step and ?P2.0 = flag_step])
     (auto intro: flag_step_trans)

lemma approve_selected_step: "list_all2 flag_step ms (approve_selected ms ids)"
  unfolding approve_selected_def
proof (induction ids arbitrary: ms)
  case Nil
  show ?case by (simp add: list_all2_refl flag_step_def)
next
  case (Cons i ids)
  show ?case
    using all2_flag_step_trans [OF approve_match_step Cons.IH] by simp
qed

lemma reject_selected_step: "list_all2 flag_step ms (reject_selected ms ids)"
  unfolding reject_selected_def
proof (induction ids arbitrary: ms)
  case Nil
  show ?case by (simp add: list_all2_refl flag_step_def)
next
  case (Cons i ids)
  show ?case
    using all2_flag_step_trans [OF reject_match_step Cons.IH] by simp
qed

lemma apply_review_step: "list_all2 flag_step ms (apply_review ms op)"
  by (cases op)
     (simp_all add: approve_match_step reject_match_step approve_all_step reject_all_step
        approve_high_step approve_selected_step reject_selected_step)

lemma approve_then_reject:
  assumes "get_match ms i = Some m"
  shows "get_match (reject_match (approve_match ms i) i) i =
           Some (m\<lparr>user_approved := False, user_rejected := True\<rparr>)"
  using get_reject_match [OF get_approve_match [OF assms]] by simp

text \<open>
  Claim C4. Starting from memberships whose flags are not both set (in particular from
  pending ones), no sequence of approve, reject, approve-all, reject-all, auto-approve or
  selection operations leaves a membership with both flags true; every single operation
  leaves each membership either untouched or with exactly one of the two flags set; and
  approving and then rejecting the membership with id \<open>i\<close> leaves it with
  \<open>user_approved = False\<close> and \<open>user_rejected = True\<close>, all other columns as before.
\<close>

theorem review_flags_exclusive:
  assumes "list_all flags_ok ms"
  shows "list_all flags_ok (run_reviews ms ops)
       \<and> list_all2 flag_step (run_reviews ms ops) (apply_review (run_reviews ms ops) op)
       \<and> (get_match ms i = Some m \<longrightarrow>
            get_match (reject_match (approve_match ms i) i) i =
              Some (m\<lparr>user_approved := False, user_rejected := True\<rparr>))"
  using run_reviews_ok [OF assms] apply_review_step approve_then_reject by blast

theorem review_flags_exclusive_witness:
  "list_all pending
     [\<lparr>m_id = 1, audiobook_id = 7, series_id = 3, confidence_score = 95,
       match_method = ''metadata'', user_approved = False, user_rejected = False\<rparr>]
   \<and> list_all flags_ok
       (run_reviews
          [\<lparr>m_id = 1, audiobook_id = 7, series_id = 3, confidence_score = 95,
            match_method = ''metadata'', user_approved = False, user_rejected = False\<rparr>]
          [ApproveHighConfidence, Reject 1, ApproveAll, ApproveSelected [1]])
   \<and> get_match
       (reject_match (approve_match
          [\<lparr>m_id = 1, audiobook_id = 7, series_id = 3, confidence_score = 95,
            match_method = ''metadata'', user_approved = False, user_rejected = False\<rparr>] 1) 1) 1
     = Some \<lparr>m_id = 1, audiobook_id = 7, series_id = 3, confidence_score = 95,
              match_method = ''metadata'', user_approved = False, user_rejected = True\<rparr>"
  using review_flags_exclusive
    [of "[\<lparr>m_id = 1, audiobook_id = 7, series_id = 3, confidence_score = 95,
            match_method = ''metadata'', user_approved = False, user_rejected = False\<rparr>]"
        "[ApproveHighConfidence, Reject 1, ApproveAll, ApproveSelected [1]]"
        "Approve 1" 1
        "\<lparr>m_id = 1, audiobook_id = 7, series_id = 3, confidence_score = 95,
           match_method = ''metadata'', user_approved = False, user_rejected = False\<rparr>"]
  by (simp add: pending_def flags_ok_def get_match_def)

lemma approve_high_rows:
  "list_all2
     (\<lambda>m m'. m' = (if pending m \<and> 90 \<le> confidence_score m then m\<lparr>user_approved := True\<rparr> else m)
              \<and> user_rejected m' = user_rejected m
              \<and> (user_approved m' \<longleftrightarrow> user_approved m \<or> (pending m \<and> 90 \<le> confidence_score m)))
     ms (approve_high_confidence ms)"
  unfolding approve_high_confidence_def
  by (rule map_all2) (auto simp: pending_def)

lemma approve_all_rows:
  "list_all2
     (\<lambda>m m'. m' = (if pending m then m\<lparr>user_approved := True\<rparr> else m)
              \<and> user_rejected m' = user_rejected m
              \<and> (user_approved m' \<longleftrightarrow> user_approved m \<or> pending m))
     ms (approve_all_matches ms)"
  unfolding approve_all_matches_def
  by (rule map_all2) (auto simp: pending_def)

lemma approve_high_none_left:
  "list_all (\<lambda>m. \<not> (pending m \<and> 90 \<le> confidence_score m)) (approve_high_confidence ms)"
  by (induction ms) (auto simp: approve_high_confidence_def pending_def)

lemma approve_all_none_left: "list_all (\<lambda>m. \<not> pending m) (approve_all_matches ms)"
  by (induction ms) (auto simp: approve_all_matches_def pending_def)

lemma approve_all_after_high:
  "approve_all_matches (approve_high_confidence ms) = approve_all_matches ms"
  by (induction ms) (auto simp: approve_all_matches_def approve_high_confidence_def)

text \<open>
  Claim C8, as the code has it. The review panel's auto-approve
  (\<open>_approve_high_confidence\<close>) keeps the rows in place, approves exactly the memberships
  that are pending and score at least 90, and changes nothing else: every other row, a
  lower-scored pending one included, is returned as it was, and no row's rejected flag
  changes; afterwards no pending membership with score 90 or more is left. The web
  application's approve-all (\<open>approve_all_matches\<close>) takes no threshold: it approves every
  pending membership whatever its score, changes no other row, and leaves no membership
  pending; running it after the auto-approve gives what it gives alone.
\<close>

theorem bulk_approve_by_operation:
  "list_all2
     (\<lambda>m m'. m' = (if pending m \<and> 90 \<le> confidence_score m then m\<lparr>user_approved := True\<rparr> else m)
              \<and> user_rejected m' = user_rejected m
              \<and> (user_approved m' \<longleftrightarrow> user_approved m \<or> (pending m \<and> 90 \<le> confidence_score m)))
     ms (approve_high_confidence ms)
   \<and> list_all (\<lambda>m. \<not> (pending m \<and> 90 \<le> confidence_score m)) (approve_high_confidence ms)
   \<and> list_all2
     (\<lambda>m m'. m' = (if pending m then m\<lparr>user_approved := True\<rparr> else m)
              \<and> user_rejected m' = user_rejected m
              \<and> (user_approved m' \<longleftrightarrow> user_approved m \<or> pending m))
     ms (approve_all_matches ms)
   \<and> list_all (\<lambda>m. \<not> pending m) (approve_all_matches ms)
   \<and> approve_all_matches (approve_high_confidence ms) = approve_all_matches ms"
  using approve_high_rows approve_high_none_left approve_all_rows approve_all_none_left
    approve_all_after_high
  by blast

text \<open>
  Claim C8 as stated, for the web application's approve-all: a pending membership with
  score 10, below the threshold of 90, is approved.
\<close>

theorem approve_all_counterexample:
  "approve_all_matches
     [\<lparr>m_id = 1, audiobook_id = 1, series_id = 1, confidence_score = 10,
       match_method = ''fuzzy_match'', user_approved = False, user_rejected = False\<rparr>]
   = [\<lparr>m_id = 1, audiobook_id = 1, series_id = 1, confidence_score = 10,
       match_method = ''fuzzy_match'', user_approved = True, user_rejected = False\<rparr>]"
  by (simp add: approve_all_matches_def)

theorem bulk_approve_by_operation_witness:
  "approve_high_confidence
     [\<lparr>m_id = 1, audiobook_id = 1, series_id = 1, confidence_score = 90,
       match_method = ''fuzzy_match'', user_approved = False, user_rejected = False\<rparr>,
      \<lparr>m_id = 2, audiobook_id = 2, series_id = 1, confidence_score = 89,
       match_method = ''title_pattern'', user_approved = False, user_rejected = False\<rparr>,
      \<lparr>m_id = 3, audiobook_id = 3, series_id = 1, confidence_score = 98,
       match_method = ''external_api'', user_approved = False, user_rejected = True\<rparr>]
   = [\<lparr>m_id = 1, audiobook_id = 1, series_id = 1, confidence_score = 90,
       match_method = ''fuzzy_match'', user_approved = True, user_rejected = False\<rparr>,
      \<lparr>m_id = 2, audiobook_id = 2, series_id = 1, confidence_score = 89,
       match_method = ''title_pattern'', user_approved = False, user_rejected = False\<rparr>,
      \<lparr>m_id = 3, audiobook_id = 3, series_id = 1, confidence_score = 98,
       match_method = ''external_api'', user_approved = False, user_rejected = True\<rparr>]
   \<and> approve_all_matches
     [\<lparr>m_id = 1, audiobook_id = 1, series_id = 1, confidence_score = 90,
       match_method = ''fuzzy_match'', user_approved = False, user_rejected = False\<rparr>,
      \<lparr>m_id = 2, audiobook_id = 2, series_id = 1, confidence_score = 89,
       match_method = ''title_pattern'', user_approved = False, user_rejected = False\<rparr>,
      \<lparr>m_id = 3, audiobook_id = 3, series_id = 1, confidence_score = 98,
       match_method = ''external_api'', user_approved = False, user_rejected = True\<rparr>]
   = [\<lparr>m_id = 1, audiobook_id = 1, series_id = 1, confidence_score = 90,
       match_method = ''fuzzy_match'', user_approved = True, user_rejected = False\<rparr>,
      \<lparr>m_id = 2, audiobook_id = 2, series_id = 1, confidence_score = 89,
       match_method = ''title_pattern'', user_approved = True, user_rejected = False\<rparr>,
      \<lparr>m_id = 3, audiobook_id = 3, series_id = 1, confidence_score = 98,
       match_method = ''external_api'', user_approved = False, user_rejected = True\<rparr>]"
  using bulk_approve_by_operation
    [of "[\<lparr>m_id = 1, audiobook_id = 1, series_id = 1, confidence_score = 90,
       match_method = ''fuzzy_match'', user_approved = False, user_rejected = False\<rparr>,
      \<lparr>m_id = 2, audiobook_id = 2, series_id = 1, confidence_score = 89,
       match_method = ''title_pattern'', user_approved = False, user_rejected = False\<rparr>,
      \<lparr>m_id = 3, audiobook_id = 3, series_id = 1, confidence_score = 98,
       match_method = ''external_api'', user_approved = False, user_rejected = True\<rparr>]"]
  by (simp add: pending_def list_all2_Cons1)

section \<open>Title patterns: proofs\<close>











section \<open>Pipeline: frame and invariant lemmas\<close>

lemma set_series_index_frame [simp]:
  "matches (set_series_index d a v) = matches d"
  "series_tbl (set_series_index d a v) = series_tbl d"
  by (simp_all add: set_series_index_def)

lemma attach_matches:
  "matches (attach d a name c meth)
     = match_audiobook_to_series (matches d) (ab_id a)
         (s_id (fst (find_or_create_series (series_tbl d) name (author a)))) c meth"
  by (simp add: attach_def split: prod.splits)

lemma attach_series:
  "series_tbl (attach d a name c meth)
     = snd (find_or_create_series (series_tbl d) name (author a))"
  by (simp add: attach_def split: prod.splits)

lemma grows_refl: "grows ss ss"
  by (simp add: grows_def)

lemma grows_trans: "grows a b \<Longrightarrow> grows b c \<Longrightarrow> grows a c"
  by (auto simp: grows_def)

lemma find_or_create_grows: "grows ss (snd (find_or_create_series ss name auth))"
  by (auto simp: find_or_create_series_def grows_def Let_def split: option.splits)

lemma attach_grows: "grows (series_tbl d) (series_tbl (attach d a name c meth))"
  by (simp add: attach_series find_or_create_grows)

lemma fuzzy_series: "series_tbl (fuzzy_match_to_existing_series pr ra thr d a) = series_tbl d"
  by (simp add: fuzzy_match_to_existing_series_def Let_def split: prod.splits option.splits)

lemma match_local_grows: "grows (series_tbl d) (series_tbl (snd (match_local pr ra thr d a)))"
  by (simp add: match_local_def attach_grows fuzzy_series grows_refl split: option.splits prod.splits)

lemma match_external_grows: "grows (series_tbl d) (series_tbl (match_external d a r))"
  by (simp add: match_external_def Let_def attach_grows split: option.splits prod.splits)

lemma match_one_grows:
  "grows (series_tbl d) (series_tbl (snd (snd (match_one lk pr ra (m, d) a))))"
  using match_local_grows [of d pr ra "confidence_threshold m" a] match_external_grows [of d a]
  by (auto simp: match_one_def Let_def split: option.splits prod.splits)

lemma match_loop_grows:
  "grows (series_tbl d) (series_tbl (snd (snd (match_loop lk pr ra (n, m, d) a))))"
  using match_one_grows [of d lk pr ra m a]
  by (auto simp: match_loop_def split: prod.splits)

lemma foldl_match_loop_grows:
  "grows (series_tbl (snd (snd acc))) (series_tbl (snd (snd (foldl (match_loop lk pr ra) acc xs))))"
proof (induction xs arbitrary: acc)
  case Nil
  show ?case by (simp add: grows_refl)
next
  case (Cons a xs)
  obtain n m d where acc: "acc = (n, m, d)" by (cases acc) auto
  show ?case
    using grows_trans [OF match_loop_grows [of d lk pr ra n m a] Cons.IH [of "match_loop lk pr ra (n, m, d) a"]]
    by (simp add: acc)
qed

lemma match_all_grows:
  "grows (series_tbl d) (series_tbl (snd (snd (match_all_audiobooks lk pr ra (m, d)))))"
  using foldl_match_loop_grows [of "(0, m, d)" lk pr ra "audiobooks d"]
  by (simp add: match_all_audiobooks_def)

lemma pairs_update_first:
  "pairs (update_first P (\<lambda>m. m\<lparr>confidence_score := c, match_method := meth\<rparr>) ms) = pairs ms"
  by (induction ms) (auto simp: pairs_def)

lemma find_None_pairs:
  "find (\<lambda>m. audiobook_id m = a \<and> series_id m = s) ms = None \<longleftrightarrow> (a, s) \<notin> set (pairs ms)"
  by (induction ms) (auto simp: pairs_def)

lemma pairs_match:
  "pairs (match_audiobook_to_series ms a s c meth)
     = (if (a, s) \<in> set (pairs ms) then pairs ms else pairs ms @ [(a, s)])"
proof (cases "find (\<lambda>m. audiobook_id m = a \<and> series_id m = s) ms")
  case None
  then show ?thesis
    using find_None_pairs [of a s ms]
    by (simp add: match_audiobook_to_series_def) (simp add: pairs_def)
next
  case (Some m)
  then show ?thesis
    using find_None_pairs [of a s ms]
    by (simp add: match_audiobook_to_series_def pairs_update_first)
qed

lemma length_match:
  "length (match_audiobook_to_series ms a s c meth)
     = (if (a, s) \<in> set (pairs ms) then length ms else length ms + 1)"
  using arg_cong [OF pairs_match [of ms a s c meth], of length]
  by (simp add: pairs_def split: if_splits)

lemma upserted_pairs:
  assumes "upserted a ms ms'"
  shows "(distinct (pairs ms) \<longrightarrow> distinct (pairs ms'))
       \<and> set (pairs ms) \<subseteq> set (pairs ms')
       \<and> length ms \<le> length ms' \<and> length ms' \<le> length ms + 1"
  using assms by (auto simp: upserted_def pairs_match length_match)

lemma attach_upserted: "upserted (ab_id a) (matches d) (matches (attach d a name c meth))"
  by (auto simp: upserted_def attach_matches)

lemma fuzzy_upserted:
  "upserted (ab_id a) (matches d) (matches (fuzzy_match_to_existing_series pr ra thr d a))"
  by (auto simp: upserted_def fuzzy_match_to_existing_series_def Let_def
           split: prod.splits option.splits)

lemma match_local_upserted:
  "upserted (ab_id a) (matches d) (matches (snd (match_local pr ra thr d a)))"
  by (simp add: match_local_def attach_upserted fuzzy_upserted split: option.splits prod.splits)

lemma match_external_upserted: "upserted (ab_id a) (matches d) (matches (match_external d a r))"
  by (simp add: match_external_def Let_def attach_upserted split: option.splits prod.splits)

lemma match_one_upserted:
  "upserted (ab_id a) (matches d) (matches (snd (snd (match_one lk pr ra (m, d) a))))"
  using match_local_upserted [of a d pr ra "confidence_threshold m"] match_external_upserted [of a d]
  by (auto simp: match_one_def Let_def split: option.splits prod.splits)








section \<open>Fuzzy fallback and series resolution: proofs\<close>

lemma fuzzy_fold_inv:
  "foldl (fuzzy_step pr ra thr a) best ss = (Some s, sc) \<Longrightarrow>
   best = (Some s, sc) \<or> (s \<in> set ss \<and> sc = fuzzy_score pr ra a s \<and> thr \<le> sc)"
proof (induction ss arbitrary: best)
  case Nil
  then show ?case by simp
next
  case (Cons x xs)
  from Cons.prems have "foldl (fuzzy_step pr ra thr a) (fuzzy_step pr ra thr a best x) xs = (Some s, sc)"
    by simp
  from Cons.IH [OF this] show ?case
    by (auto simp: fuzzy_step_def Let_def split: if_splits)
qed

lemma fuzzy_best_Some:
  "fuzzy_best pr ra thr a ss = (Some s, sc) \<Longrightarrow>
   s \<in> set ss \<and> sc = fuzzy_score pr ra a s \<and> thr \<le> sc"
  unfolding fuzzy_best_def by (drule fuzzy_fold_inv) simp

lemma fuzzy_best_below:
  assumes "\<forall>s \<in> set ss. fuzzy_score pr ra a s < thr"
  shows "fst (fuzzy_best pr ra thr a ss) = None"
proof (cases "fuzzy_best pr ra thr a ss")
  case (Pair b sc)
  show ?thesis
  proof (cases b)
    case None
    with Pair show ?thesis by simp
  next
    case (Some s)
    with Pair fuzzy_best_Some [of pr ra thr a ss s sc] assms show ?thesis by force
  qed
qed

lemma fuzzy_below_noop:
  assumes "\<forall>s \<in> set (series_tbl d). fuzzy_score pr ra a s < thr"
  shows "fuzzy_match_to_existing_series pr ra thr d a = d"
  using fuzzy_best_below [OF assms]
  by (auto simp: fuzzy_match_to_existing_series_def split: prod.splits option.splits)

lemma fuzzy_changed:
  assumes "matches (fuzzy_match_to_existing_series pr ra thr d a) \<noteq> matches d"
  shows "\<exists>s \<in> set (series_tbl d). thr \<le> fuzzy_score pr ra a s
           \<and> matches (fuzzy_match_to_existing_series pr ra thr d a)
               = match_audiobook_to_series (matches d) (ab_id a) (s_id s)
                   (fuzzy_score pr ra a s) ''fuzzy_match''"
proof (cases "fuzzy_best pr ra thr a (series_tbl d)")
  case (Pair b sc)
  show ?thesis
  proof (cases b)
    case None
    with Pair assms show ?thesis by (simp add: fuzzy_match_to_existing_series_def)
  next
    case (Some s)
    with Pair fuzzy_best_Some [of pr ra thr a "series_tbl d" s sc]
    have "s \<in> set (series_tbl d)" "sc = fuzzy_score pr ra a s" "thr \<le> sc" by auto
    moreover have "matches (fuzzy_match_to_existing_series pr ra thr d a)
        = match_audiobook_to_series (matches d) (ab_id a) (s_id s) sc ''fuzzy_match''"
      using Pair Some
      by (simp add: fuzzy_match_to_existing_series_def Let_def split: option.splits prod.splits)
    ultimately show ?thesis by auto
  qed
qed

text \<open>
  Claim C7. The fuzzy fallback leaves the store exactly as it was when every candidate
  series scores below the threshold, the best-scoring one included; whenever it changes the
  membership table, some candidate series scores at or above the threshold and the change
  is the upsert of a \<open>fuzzy_match\<close> membership for that series with that score. The score
  is the partial similarity of the lowered title and series name, plus 10 when both authors
  are present and their similarity exceeds 80. The threshold defaults to 70.
\<close>

theorem fuzzy_respects_threshold:
  "((\<forall>s \<in> set (series_tbl d). fuzzy_score pr ra a s < thr) \<longrightarrow>
      fuzzy_match_to_existing_series pr ra thr d a = d)
   \<and> (matches (fuzzy_match_to_existing_series pr ra thr d a) \<noteq> matches d \<longrightarrow>
        (\<exists>s \<in> set (series_tbl d). thr \<le> fuzzy_score pr ra a s
           \<and> matches (fuzzy_match_to_existing_series pr ra thr d a)
               = match_audiobook_to_series (matches d) (ab_id a) (s_id s)
                   (fuzzy_score pr ra a s) ''fuzzy_match''))
   \<and> fuzzy_score pr ra a c
       = pr (lower (title a)) (lower (series_name c))
         + (if truthy (author a) \<and> truthy (s_author c)
               \<and> ra (lower (the (author a))) (lower (the (s_author c))) > 80
            then 10 else 0)
   \<and> confidence_threshold (new_matcher l) = 70"
  using fuzzy_below_noop fuzzy_changed
  by (auto simp: fuzzy_score_def Let_def new_matcher_def)

lemma find_or_create_found:
  "find (\<lambda>s. ilike (series_name s) (''%'' @ name @ ''%'')) ss = Some s \<Longrightarrow>
   find_or_create_series ss name auth = (s, ss)"
  by (simp add: find_or_create_series_def)

lemma find_or_create_new:
  "find (\<lambda>s. ilike (series_name s) (''%'' @ name @ ''%'')) ss = None \<Longrightarrow>
   find_or_create_series ss name auth
     = (\<lparr>s_id = next_id (map s_id ss), series_name = name, s_author = auth, total_books = 0\<rparr>,
        ss @ [\<lparr>s_id = next_id (map s_id ss), series_name = name, s_author = auth,
               total_books = 0\<rparr>])"
  by (simp add: find_or_create_series_def Let_def)

text \<open>
  Claim C10. Series resolution never maintains the book count: \<open>find_or_create_series\<close>
  returns the series that the lookup finds as it is and leaves the table unchanged; when
  the lookup finds none it appends one new series with \<open>total_books = 0\<close>; and a whole
  run of the pipeline leaves every existing series row unchanged and only appends series
  with \<open>total_books = 0\<close>, so counts that are 0 stay 0 whatever memberships are attached.
\<close>

theorem series_book_count_never_maintained:
  "(find (\<lambda>s. ilike (series_name s) (''%'' @ name @ ''%'')) ss = Some s \<longrightarrow>
      find_or_create_series ss name auth = (s, ss))
   \<and> (find (\<lambda>s. ilike (series_name s) (''%'' @ name @ ''%'')) ss = None \<longrightarrow>
      find_or_create_series ss name auth
        = (\<lparr>s_id = next_id (map s_id ss), series_name = name, s_author = auth,
             total_books = 0\<rparr>,
           ss @ [\<lparr>s_id = next_id (map s_id ss), series_name = name, s_author = auth,
                  total_books = 0\<rparr>]))
   \<and> grows (series_tbl d) (series_tbl (snd (snd (match_all_audiobooks lk pr ra (m, d)))))
   \<and> (list_all (\<lambda>s. total_books s = 0) (series_tbl d) \<longrightarrow>
        list_all (\<lambda>s. total_books s = 0)
          (series_tbl (snd (snd (match_all_audiobooks lk pr ra (m, d))))))"
  using find_or_create_found find_or_create_new match_all_grows [of d lk pr ra m]
  by (auto simp: grows_def)

section \<open>Stage precedence: proofs\<close>

lemma match_one_length:
  "length (matches (snd (snd (match_one lk pr ra (m, d) a)))) \<le> length (matches d) + 1"
  using upserted_pairs [OF match_one_upserted [of a d lk pr ra m]] by simp

lemma match_one_external:
  assumes "external_hit lk m a = Some r"
  shows "snd (snd (match_one lk pr ra (m, d) a)) = match_external d a r"
  using assms
  by (auto simp: external_hit_def match_one_def Let_def split: option.splits prod.splits if_splits)

lemma match_one_local:
  assumes "external_hit lk m a = None"
  shows "snd (snd (match_one lk pr ra (m, d) a))
           = snd (match_local pr ra (confidence_threshold m) d a)"
  using assms
  by (auto simp: external_hit_def match_one_def Let_def split: option.splits prod.splits if_splits)

lemma match_external_matches:
  "matches (match_external d a r)
     = match_audiobook_to_series (matches d) (ab_id a)
         (s_id (fst (find_or_create_series (series_tbl d) (the (res_series_name r)) (author a))))
         98 ''external_api''"
  by (simp add: match_external_def Let_def attach_matches split: option.splits prod.splits)

lemma match_local_metadata:
  "truthy (series_title a) \<Longrightarrow>
   matches (snd (match_local pr ra thr d a))
     = match_audiobook_to_series (matches d) (ab_id a)
         (s_id (fst (find_or_create_series (series_tbl d) (the (series_title a)) (author a))))
         95 ''metadata''"
  by (simp add: match_local_def attach_matches)

lemma match_local_title:
  "\<not> truthy (series_title a) \<Longrightarrow> extract_series_info (title a) = Some (name, idx) \<Longrightarrow>
   name \<noteq> [] \<Longrightarrow>
   matches (snd (match_local pr ra thr d a))
     = match_audiobook_to_series (matches d) (ab_id a)
         (s_id (fst (find_or_create_series (series_tbl d) name (author a))))
         85 ''title_pattern''"
  by (simp add: match_local_def attach_matches)

lemma match_local_fuzzy:
  "\<not> truthy (series_title a) \<Longrightarrow>
   extract_series_info (title a) = None \<or> (\<exists>idx. extract_series_info (title a) = Some ([], idx)) \<Longrightarrow>
   snd (match_local pr ra thr d a) = fuzzy_match_to_existing_series pr ra thr d a"
  by (auto simp: match_local_def)

text \<open>
  Claim C1, as the code has it. For every record the loop body tries its stages in this
  order: external lookup (when enabled and configured), embedded series title, title
  pattern, fuzzy fallback. The first stage that succeeds decides the outcome alone: a
  lookup that returns a series name gives the \<open>external_api\<close> membership with score 98
  whatever the record's embedded title and title text are; failing that, an embedded series
  title gives the \<open>metadata\<close> membership with score 95; failing that, a title pattern with
  a non-empty name gives the \<open>title_pattern\<close> membership with score 85; only when all
  three fail does the fuzzy fallback run. The membership table grows by at most one row
  per record.
\<close>

theorem pipeline_precedence:
  "(external_hit lk m a = Some r \<longrightarrow>
      matches (snd (snd (match_one lk pr ra (m, d) a)))
        = match_audiobook_to_series (matches d) (ab_id a)
            (s_id (fst (find_or_create_series (series_tbl d) (the (res_series_name r))
                          (author a))))
            98 ''external_api'')
   \<and> (external_hit lk m a = None \<and> truthy (series_title a) \<longrightarrow>
      matches (snd (snd (match_one lk pr ra (m, d) a)))
        = match_audiobook_to_series (matches d) (ab_id a)
            (s_id (fst (find_or_create_series (series_tbl d) (the (series_title a))
                          (author a))))
            95 ''metadata'')
   \<and> (external_hit lk m a = None \<and> \<not> truthy (series_title a)
        \<and> extract_series_info (title a) = Some (name, idx) \<and> name \<noteq> [] \<longrightarrow>
      matches (snd (snd (match_one lk pr ra (m, d) a)))
        = match_audiobook_to_series (matches d) (ab_id a)
            (s_id (fst (find_or_create_series (series_tbl d) name (author a))))
            85 ''title_pattern'')
   \<and> (external_hit lk m a = None \<and> \<not> truthy (series_title a)
        \<and> (extract_series_info (title a) = None
             \<or> (\<exists>i. extract_series_info (title a) = Some ([], i))) \<longrightarrow>
      snd (snd (match_one lk pr ra (m, d) a))
        = fuzzy_match_to_existing_series pr ra (confidence_threshold m) d a)
   \<and> length (matches (snd (snd (match_one lk pr ra (m, d) a)))) \<le> length (matches d) + 1"
proof -
  have "external_hit lk m a = Some r \<Longrightarrow> matches (snd (snd (match_one lk pr ra (m, d) a)))
        = match_audiobook_to_series (matches d) (ab_id a)
            (s_id (fst (find_or_create_series (series_tbl d) (the (res_series_name r))
                          (author a))))
            98 ''external_api''"
    by (simp add: match_one_external match_external_matches)
  moreover have "external_hit lk m a = None \<Longrightarrow> truthy (series_title a) \<Longrightarrow>
      matches (snd (snd (match_one lk pr ra (m, d) a)))
        = match_audiobook_to_series (matches d) (ab_id a)
            (s_id (fst (find_or_create_series (series_tbl d) (the (series_title a))
                          (author a))))
            95 ''metadata''"
    by (simp add: match_one_local match_local_metadata)
  moreover have "external_hit lk m a = None \<Longrightarrow> \<not> truthy (series_title a) \<Longrightarrow>
        extract_series_info (title a) = Some (name, idx) \<Longrightarrow> name \<noteq> [] \<Longrightarrow>
      matches (snd (snd (match_one lk pr ra (m, d) a)))
        = match_audiobook_to_series (matches d) (ab_id a)
            (s_id (fst (find_or_create_series (series_tbl d) name (author a))))
            85 ''title_pattern''"
    by (simp add: match_one_local match_local_title)
  moreover have "external_hit lk m a = None \<Longrightarrow> \<not> truthy (series_title a) \<Longrightarrow>
        extract_series_info (title a) = None
             \<or> (\<exists>i. extract_series_info (title a) = Some ([], i)) \<Longrightarrow>
      snd (snd (match_one lk pr ra (m, d) a))
        = fuzzy_match_to_existing_series pr ra (confidence_threshold m) d a"
    by (simp add: match_one_local match_local_fuzzy)
  ultimately show ?thesis
    using match_one_length [of lk pr ra m d a] by blast
qed

section \<open>The pipeline on concrete stores\<close>

text \<open>
  Claim C1 as stated puts the embedded series title before the external lookup. A record
  with the embedded title \<open>Foundation\<close>, for which the configured lookup returns the series
  \<open>Robot\<close> with index 1, gets the \<open>external_api\<close> membership with score 98 in the series
  \<open>Robot\<close>; no \<open>metadata\<close> membership and no series \<open>Foundation\<close> are created.
\<close>

theorem precedence_counterexample:
  "snd (snd (match_all_audiobooks
     (\<lambda>l t a. (Some \<lparr>res_series_name = Some ''Robot'', res_series_index = Some ''1''\<rparr>, l))
     identical_100 identical_100
     (new_matcher (Some ()),
      \<lparr>audiobooks = [\<lparr>ab_id = 1, title = ''I'', author = None,
                       series_title = Some ''Foundation'', series_index = None\<rparr>],
       series_tbl = [], matches = []\<rparr>)))
   = \<lparr>audiobooks = [\<lparr>ab_id = 1, title = ''I'', author = None,
                       series_title = Some ''Foundation'', series_index = Some ''1''\<rparr>],
      series_tbl = [\<lparr>s_id = 1, series_name = ''Robot'', s_author = None, total_books = 0\<rparr>],
      matches = [\<lparr>m_id = 1, audiobook_id = 1, series_id = 1, confidence_score = 98,
        match_method = ''external_api'', user_approved = False, user_rejected = False\<rparr>]\<rparr>"
  by code_simp



text \<open>
  Claim C5 at a failing input: the record \<open>Dune\<close> by Frank Herbert against the existing
  series \<open>Dune\<close> by Frank Herbert. The title similarity is 100, the authors are identical,
  and the membership is stored with \<open>confidence_score = 110\<close>.
\<close>

theorem fuzzy_score_110:
  "matches (snd (snd (match_all_audiobooks (\<lambda>l t a. (None, l)) identical_100 identical_100
     (new_matcher (None :: unit option),
      \<lparr>audiobooks = [\<lparr>ab_id = 1, title = ''Dune'', author = Some ''Frank Herbert'',
                       series_title = None, series_index = None\<rparr>],
       series_tbl = [\<lparr>s_id = 1, series_name = ''Dune'', s_author = Some ''Frank Herbert'',
                       total_books = 0\<rparr>],
       matches = []\<rparr>))))
   = [\<lparr>m_id = 1, audiobook_id = 1, series_id = 1, confidence_score = 110,
        match_method = ''fuzzy_match'', user_approved = False, user_rejected = False\<rparr>]"
  by code_simp


text \<open>
  Claim C6 at a failing input: the record \<open>Emma\<close> against the existing series \<open>Emma\<close>. The
  fuzzy fallback creates the membership, and \<open>match_all_audiobooks\<close> returns 0.
\<close>

theorem fuzzy_match_not_counted:
  "match_all_audiobooks (\<lambda>l t a. (None, l)) identical_100 identical_100
     (new_matcher (None :: unit option),
      \<lparr>audiobooks = [\<lparr>ab_id = 1, title = ''Emma'', author = None,
                       series_title = None, series_index = None\<rparr>],
       series_tbl = [\<lparr>s_id = 1, series_name = ''Emma'', s_author = None, total_books = 0\<rparr>],
       matches = []\<rparr>)
   = (0, new_matcher None,
      \<lparr>audiobooks = [\<lparr>ab_id = 1, title = ''Emma'', author = None,
                       series_title = None, series_index = None\<rparr>],
       series_tbl = [\<lparr>s_id = 1, series_name = ''Emma'', s_author = None, total_books = 0\<rparr>],
       matches = [\<lparr>m_id = 1, audiobook_id = 1, series_id = 1, confidence_score = 100,
        match_method = ''fuzzy_match'', user_approved = False, user_rejected = False\<rparr>]\<rparr>)"
  by code_simp


section \<open>External lookup: proofs\<close>

lemma cache_persists:
  "cache st k = Some r \<Longrightarrow> cache (snd (lookup_google_books st t a e)) k = Some r"
  by (auto simp: lookup_google_books_def Let_def split: option.splits http_outcome.splits)

lemma run_lookups_cache:
  "cache st k = Some r \<Longrightarrow> cache (run_lookups st calls) k = Some r"
  unfolding run_lookups_def
  by (induction calls arbitrary: st) (auto simp: cache_persists split: prod.splits)

lemma cache_hit:
  "cache st (cache_key t a) = Some r \<Longrightarrow> lookup_google_books st t a e = (r, st)"
  by (simp add: lookup_google_books_def)

lemma rate_limit_signal:
  assumes "cache st (cache_key t a) = None" "\<not> now e < rate_limited_until st"
    "response e = Status429"
  shows "fst (lookup_google_books st t a e) = None"
    "rate_limited_until (snd (lookup_google_books st t a e)) = t_back e + 60"
    "cache (snd (lookup_google_books st t a e)) (cache_key t a) = Some None"
  using assms by (simp_all add: lookup_google_books_def Let_def)

lemma cooldown_gate:
  assumes "now e < rate_limited_until st"
  shows "requests (snd (lookup_google_books st t a e)) = requests st"
    "rate_limited_until (snd (lookup_google_books st t a e)) = rate_limited_until st"
    "fst (lookup_google_books st t a e)
       = (case cache st (cache_key t a) of Some r \<Rightarrow> r | None \<Rightarrow> None)"
    "cache (snd (lookup_google_books st t a e)) (cache_key t a)
       = Some (fst (lookup_google_books st t a e))"
  using assms by (simp_all add: lookup_google_books_def Let_def split: option.splits)

text \<open>
  Claim C3, as the code has it. A lookup that is not cached, is sent and is answered with
  status 429 returns no result, opens a cooldown that ends 60 seconds after the signal and
  caches the negative outcome under its key. While the cooldown lasts, every lookup issues
  no request and leaves the cooldown as it is: a key that is not cached returns no result
  and that negative outcome is cached; a key that is cached returns its cached outcome,
  which may be a series found earlier. A cached outcome is never dropped: after any further
  calls, and at any later time (after the cooldown has expired too), the same lookup
  returns the cached outcome without a request and without changing the client.
\<close>

theorem cooldown_short_circuits:
  "(cache st (cache_key t a) = None \<and> \<not> now e < rate_limited_until st
      \<and> response e = Status429 \<longrightarrow>
      fst (lookup_google_books st t a e) = None
      \<and> rate_limited_until (snd (lookup_google_books st t a e)) = t_back e + 60
      \<and> cache (snd (lookup_google_books st t a e)) (cache_key t a) = Some None)
   \<and> (now e < rate_limited_until st \<longrightarrow>
      requests (snd (lookup_google_books st t a e)) = requests st
      \<and> rate_limited_until (snd (lookup_google_books st t a e)) = rate_limited_until st
      \<and> fst (lookup_google_books st t a e)
          = (case cache st (cache_key t a) of Some r \<Rightarrow> r | None \<Rightarrow> None)
      \<and> cache (snd (lookup_google_books st t a e)) (cache_key t a)
          = Some (fst (lookup_google_books st t a e)))
   \<and> (cache st (cache_key t a) = Some r \<longrightarrow>
      lookup_google_books (run_lookups st calls) t a e'
        = (r, run_lookups st calls))"
  using rate_limit_signal [of st t a e] cooldown_gate [of e st t a]
    cache_hit [OF run_lookups_cache, of st t a r calls e']
  by blast

text \<open>
  Claim C3 as stated says that every lookup inside the cooldown returns no result. The
  cache is consulted before the cooldown: \<open>Dune\<close> is looked up and found at time 10,
  \<open>Emma\<close> receives status 429 at time 21, so the cooldown lasts until 81; at time 30 the
  lookup of \<open>Dune\<close> returns the series found before (without a request).
\<close>

theorem cooldown_counterexample:
  "rate_limited_until
     (run_lookups \<lparr>cache = Map.empty, last_request_time = 0, rate_limited_until = 0, requests = 0\<rparr>
        [(''Dune'', None, \<lparr>now = 10, t_sent = 10, t_back = 11,
            response = Ok (Some \<lparr>res_series_name = Some ''Dune Saga'',
                                 res_series_index = Some ''1''\<rparr>)\<rparr>),
         (''Emma'', None, \<lparr>now = 20, t_sent = 20, t_back = 21, response = Status429\<rparr>)]) = 81
   \<and> lookup_google_books
       (run_lookups \<lparr>cache = Map.empty, last_request_time = 0, rate_limited_until = 0, requests = 0\<rparr>
        [(''Dune'', None, \<lparr>now = 10, t_sent = 10, t_back = 11,
            response = Ok (Some \<lparr>res_series_name = Some ''Dune Saga'',
                                 res_series_index = Some ''1''\<rparr>)\<rparr>),
         (''Emma'', None, \<lparr>now = 20, t_sent = 20, t_back = 21, response = Status429\<rparr>)])
       ''Dune'' None \<lparr>now = 30, t_sent = 30, t_back = 31, response = Status429\<rparr>
     = (Some \<lparr>res_series_name = Some ''Dune Saga'', res_series_index = Some ''1''\<rparr>,
        run_lookups \<lparr>cache = Map.empty, last_request_time = 0, rate_limited_until = 0, requests = 0\<rparr>
        [(''Dune'', None, \<lparr>now = 10, t_sent = 10, t_back = 11,
            response = Ok (Some \<lparr>res_series_name = Some ''Dune Saga'',
                                 res_series_index = Some ''1''\<rparr>)\<rparr>),
         (''Emma'', None, \<lparr>now = 20, t_sent = 20, t_back = 21, response = Status429\<rparr>)])"
  by (simp add: run_lookups_def lookup_google_books_def cache_key_def Let_def)

section \<open>Running the pipeline again: proofs\<close>


section \<open>Worked instances\<close>


theorem cooldown_short_circuits_witness:
  "fst (lookup_google_books
          \<lparr>cache = Map.empty, last_request_time = 0, rate_limited_until = 0, requests = 0\<rparr>
          ''Emma'' None \<lparr>now = 20, t_sent = 20, t_back = 21, response = Status429\<rparr>) = None
   \<and> rate_limited_until (snd (lookup_google_books
          \<lparr>cache = Map.empty, last_request_time = 0, rate_limited_until = 0, requests = 0\<rparr>
          ''Emma'' None \<lparr>now = 20, t_sent = 20, t_back = 21, response = Status429\<rparr>)) = 81
   \<and> requests (snd (lookup_google_books
          \<lparr>cache = [''Emma:None'' \<mapsto> None], last_request_time = 20, rate_limited_until = 81,
            requests = 1\<rparr>
          ''Ulysses'' None
          \<lparr>now = 30, t_sent = 30, t_back = 31, response = Ok None\<rparr>)) = 1
   \<and> fst (lookup_google_books
          \<lparr>cache = [''Emma:None'' \<mapsto> None], last_request_time = 20, rate_limited_until = 81,
            requests = 1\<rparr>
          ''Ulysses'' None
          \<lparr>now = 30, t_sent = 30, t_back = 31, response = Ok None\<rparr>) = None
   \<and> fst (lookup_google_books
          (run_lookups
             \<lparr>cache = [''Emma:None'' \<mapsto> None], last_request_time = 20,
               rate_limited_until = 81, requests = 1\<rparr>
             [(''Ulysses'', None, \<lparr>now = 30, t_sent = 30, t_back = 31, response = Ok None\<rparr>)])
          ''Emma'' None
          \<lparr>now = 200, t_sent = 200, t_back = 201,
            response = Ok (Some \<lparr>res_series_name = Some ''Austen'',
                                 res_series_index = None\<rparr>)\<rparr>) = None"
proof -
  have a: "cache \<lparr>cache = Map.empty, last_request_time = 0, rate_limited_until = 0,
                  requests = 0\<rparr> (cache_key ''Emma'' None) = None
     \<and> \<not> now \<lparr>now = 20, t_sent = 20, t_back = 21, response = Status429\<rparr>
           < rate_limited_until \<lparr>cache = Map.empty, last_request_time = 0,
               rate_limited_until = 0, requests = (0::nat)\<rparr>
     \<and> response \<lparr>now = 20, t_sent = 20, t_back = 21, response = Status429\<rparr> = Status429"
    by simp
  have b: "now \<lparr>now = 30, t_sent = 30, t_back = 31, response = Ok None\<rparr>
      < rate_limited_until \<lparr>cache = [''Emma:None'' \<mapsto> None], last_request_time = 20,
          rate_limited_until = 81, requests = 1\<rparr>"
    by simp
  have c: "cache \<lparr>cache = [''Emma:None'' \<mapsto> None], last_request_time = 20,
               rate_limited_until = 81, requests = 1\<rparr> (cache_key ''Emma'' None) = Some None"
    by (simp add: cache_key_def)
  have k: "cache \<lparr>cache = [''Emma:None'' \<mapsto> None], last_request_time = 20,
               rate_limited_until = 81, requests = 1\<rparr> (cache_key ''Ulysses'' None) = None"
    by (simp add: cache_key_def)
  from a cooldown_short_circuits
      [of "\<lparr>cache = Map.empty, last_request_time = 0, rate_limited_until = 0, requests = 0\<rparr>"
          "''Emma''" None "\<lparr>now = 20, t_sent = 20, t_back = 21, response = Status429\<rparr>"]
  have r1: "fst (lookup_google_books
          \<lparr>cache = Map.empty, last_request_time = 0, rate_limited_until = 0, requests = 0\<rparr>
          ''Emma'' None \<lparr>now = 20, t_sent = 20, t_back = 21, response = Status429\<rparr>) = None
   \<and> rate_limited_until (snd (lookup_google_books
          \<lparr>cache = Map.empty, last_request_time = 0, rate_limited_until = 0, requests = 0\<rparr>
          ''Emma'' None \<lparr>now = 20, t_sent = 20, t_back = 21, response = Status429\<rparr>)) = 81"
    by simp
  from b k cooldown_short_circuits
      [of "\<lparr>cache = [''Emma:None'' \<mapsto> None], last_request_time = 20,
               rate_limited_until = 81, requests = 1\<rparr>"
          "''Ulysses''" None "\<lparr>now = 30, t_sent = 30, t_back = 31, response = Ok None\<rparr>"]
  have r2: "requests (snd (lookup_google_books
          \<lparr>cache = [''Emma:None'' \<mapsto> None], last_request_time = 20, rate_limited_until = 81,
            requests = 1\<rparr>
          ''Ulysses'' None
          \<lparr>now = 30, t_sent = 30, t_back = 31, response = Ok None\<rparr>)) = 1
   \<and> fst (lookup_google_books
          \<lparr>cache = [''Emma:None'' \<mapsto> None], last_request_time = 20, rate_limited_until = 81,
            requests = 1\<rparr>
          ''Ulysses'' None
          \<lparr>now = 30, t_sent = 30, t_back = 31, response = Ok None\<rparr>) = None"
    by simp
  from c cooldown_short_circuits
      [of "\<lparr>cache = [''Emma:None'' \<mapsto> None], last_request_time = 20,
               rate_limited_until = 81, requests = 1\<rparr>"
          "''Emma''" None _ None
          "[(''Ulysses'', None, \<lparr>now = 30, t_sent = 30, t_back = 31, response = Ok None\<rparr>)]"
          "\<lparr>now = 200, t_sent = 200, t_back = 201,
            response = Ok (Some \<lparr>res_series_name = Some ''Austen'',
                                 res_series_index = None\<rparr>)\<rparr>"]
  have r3: "fst (lookup_google_books
          (run_lookups
             \<lparr>cache = [''Emma:None'' \<mapsto> None], last_request_time = 20,
               rate_limited_until = 81, requests = 1\<rparr>
             [(''Ulysses'', None, \<lparr>now = 30, t_sent = 30, t_back = 31, response = Ok None\<rparr>)])
          ''Emma'' None
          \<lparr>now = 200, t_sent = 200, t_back = 201,
            response = Ok (Some \<lparr>res_series_name = Some ''Austen'',
                                 res_series_index = None\<rparr>)\<rparr>) = None"
    by simp
  from r1 r2 r3 show ?thesis by blast
qed

theorem fuzzy_respects_threshold_witness:
  "fuzzy_match_to_existing_series (\<lambda>x y. 40) (\<lambda>x y. 0) 70
      \<lparr>audiobooks = [], series_tbl = [\<lparr>s_id = 1, series_name = ''Emma'', s_author = None,
                                         total_books = 0\<rparr>], matches = []\<rparr>
      \<lparr>ab_id = 1, title = ''Dune'', author = None, series_title = None, series_index = None\<rparr>
    = \<lparr>audiobooks = [], series_tbl = [\<lparr>s_id = 1, series_name = ''Emma'', s_author = None,
                                         total_books = 0\<rparr>], matches = []\<rparr>
   \<and> (\<exists>s \<in> set [\<lparr>s_id = 1, series_name = ''Dune'', s_author = None, total_books = 0\<rparr>].
         70 \<le> fuzzy_score identical_100 identical_100
                 \<lparr>ab_id = 1, title = ''Dune'', author = None, series_title = None,
                   series_index = None\<rparr> s)"
proof -
  have below: "\<forall>s \<in> set (series_tbl
        \<lparr>audiobooks = [], series_tbl = [\<lparr>s_id = 1, series_name = ''Emma'', s_author = None,
                                         total_books = 0\<rparr>], matches = []\<rparr>).
      fuzzy_score (\<lambda>x y. 40) (\<lambda>x y. 0)
        \<lparr>ab_id = 1, title = ''Dune'', author = None, series_title = None,
          series_index = None\<rparr> s < 70"
    by (simp add: fuzzy_score_def)
  have changed: "matches (fuzzy_match_to_existing_series identical_100 identical_100 70
      \<lparr>audiobooks = [], series_tbl = [\<lparr>s_id = 1, series_name = ''Dune'', s_author = None,
                                         total_books = 0\<rparr>], matches = []\<rparr>
      \<lparr>ab_id = 1, title = ''Dune'', author = None, series_title = None, series_index = None\<rparr>)
     \<noteq> matches \<lparr>audiobooks = [], series_tbl = [\<lparr>s_id = 1, series_name = ''Dune'',
                    s_author = None, total_books = 0\<rparr>], matches = []\<rparr>"
    by code_simp
  from below fuzzy_respects_threshold
     [of "\<lparr>audiobooks = [], series_tbl = [\<lparr>s_id = 1, series_name = ''Emma'', s_author = None,
                                         total_books = 0\<rparr>], matches = []\<rparr>"
         "\<lambda>x y. 40" "\<lambda>x y. 0"
         "\<lparr>ab_id = 1, title = ''Dune'', author = None, series_title = None,
           series_index = None\<rparr>" 70]
  have r1: "fuzzy_match_to_existing_series (\<lambda>x y. 40) (\<lambda>x y. 0) 70
      \<lparr>audiobooks = [], series_tbl = [\<lparr>s_id = 1, series_name = ''Emma'', s_author = None,
                                         total_books = 0\<rparr>], matches = []\<rparr>
      \<lparr>ab_id = 1, title = ''Dune'', author = None, series_title = None, series_index = None\<rparr>
    = \<lparr>audiobooks = [], series_tbl = [\<lparr>s_id = 1, series_name = ''Emma'', s_author = None,
                                         total_books = 0\<rparr>], matches = []\<rparr>"
    by blast
  from changed fuzzy_respects_threshold
     [of "\<lparr>audiobooks = [], series_tbl = [\<lparr>s_id = 1, series_name = ''Dune'', s_author = None,
                                         total_books = 0\<rparr>], matches = []\<rparr>"
         identical_100 identical_100
         "\<lparr>ab_id = 1, title = ''Dune'', author = None, series_title = None,
           series_index = None\<rparr>" 70]
  have r2: "\<exists>s \<in> set [\<lparr>s_id = 1, series_name = ''Dune'', s_author = None, total_books = 0\<rparr>].
         70 \<le> fuzzy_score identical_100 identical_100
                 \<lparr>ab_id = 1, title = ''Dune'', author = None, series_title = None,
                   series_index = None\<rparr> s"
    by auto
  from r1 r2 show ?thesis by blast
qed

theorem series_book_count_never_maintained_witness:
  "find_or_create_series
      [\<lparr>s_id = 4, series_name = ''Alex Rider'', s_author = None, total_books = 0\<rparr>]
      ''rider'' (Some ''A. Horowitz'')
    = (\<lparr>s_id = 4, series_name = ''Alex Rider'', s_author = None, total_books = 0\<rparr>,
       [\<lparr>s_id = 4, series_name = ''Alex Rider'', s_author = None, total_books = 0\<rparr>])
   \<and> find_or_create_series
      [\<lparr>s_id = 4, series_name = ''Alex Rider'', s_author = None, total_books = 0\<rparr>]
      ''Dune'' None
    = (\<lparr>s_id = 5, series_name = ''Dune'', s_author = None, total_books = 0\<rparr>,
       [\<lparr>s_id = 4, series_name = ''Alex Rider'', s_author = None, total_books = 0\<rparr>,
        \<lparr>s_id = 5, series_name = ''Dune'', s_author = None, total_books = 0\<rparr>])
   \<and> list_all (\<lambda>s. total_books s = 0)
        (series_tbl (snd (snd (match_all_audiobooks (\<lambda>l t a. (None, l))
           identical_100 identical_100
           (new_matcher (None :: unit option),
            \<lparr>audiobooks = [\<lparr>ab_id = 2, title = ''x'', author = None,
                          series_title = Some ''Dune'', series_index = None\<rparr>],
             series_tbl = [\<lparr>s_id = 4, series_name = ''Alex Rider'', s_author = None,
                             total_books = 0\<rparr>],
             matches = []\<rparr>)))))"
proof -
  have f1: "find (\<lambda>s. ilike (series_name s) (''%'' @ ''rider'' @ ''%''))
        [\<lparr>s_id = 4, series_name = ''Alex Rider'', s_author = None, total_books = 0\<rparr>]
      = Some \<lparr>s_id = 4, series_name = ''Alex Rider'', s_author = None, total_books = 0\<rparr>"
    by code_simp
  have f2: "find (\<lambda>s. ilike (series_name s) (''%'' @ ''Dune'' @ ''%''))
        [\<lparr>s_id = 4, series_name = ''Alex Rider'', s_author = None, total_books = 0\<rparr>] = None"
    by code_simp
  have n: "next_id (map s_id
        [\<lparr>s_id = 4, series_name = ''Alex Rider'', s_author = None, total_books = 0\<rparr>]) = 5"
    by (simp add: next_id_def)
  have z: "list_all (\<lambda>s. total_books s = 0) (series_tbl
            \<lparr>audiobooks = [\<lparr>ab_id = 2, title = ''x'', author = None,
                          series_title = Some ''Dune'', series_index = None\<rparr>],
             series_tbl = [\<lparr>s_id = 4, series_name = ''Alex Rider'', s_author = None,
                             total_books = 0\<rparr>],
             matches = []\<rparr>)"
    by simp
  from f1 series_book_count_never_maintained
     [of "''rider''" "[\<lparr>s_id = 4, series_name = ''Alex Rider'', s_author = None,
                         total_books = 0\<rparr>]"
         "\<lparr>s_id = 4, series_name = ''Alex Rider'', s_author = None, total_books = 0\<rparr>"
         "Some ''A. Horowitz''"]
  have r1: "find_or_create_series
      [\<lparr>s_id = 4, series_name = ''Alex Rider'', s_author = None, total_books = 0\<rparr>]
      ''rider'' (Some ''A. Horowitz'')
    = (\<lparr>s_id = 4, series_name = ''Alex Rider'', s_author = None, total_books = 0\<rparr>,
       [\<lparr>s_id = 4, series_name = ''Alex Rider'', s_author = None, total_books = 0\<rparr>])"
    by blast
  from f2 n z series_book_count_never_maintained
     [of "''Dune''" "[\<lparr>s_id = 4, series_name = ''Alex Rider'', s_author = None,
                         total_books = 0\<rparr>]" _ None
         "\<lparr>audiobooks = [\<lparr>ab_id = 2, title = ''x'', author = None,
                          series_title = Some ''Dune'', series_index = None\<rparr>],
             series_tbl = [\<lparr>s_id = 4, series_name = ''Alex Rider'', s_author = None,
                             total_books = 0\<rparr>],
             matches = []\<rparr>"
         "\<lambda>l t a. (None, l)" identical_100 identical_100 "new_matcher (None :: unit option)"]
  have r2: "find_or_create_series
      [\<lparr>s_id = 4, series_name = ''Alex Rider'', s_author = None, total_books = 0\<rparr>]
      ''Dune'' None
    = (\<lparr>s_id = 5, series_name = ''Dune'', s_author = None, total_books = 0\<rparr>,
       [\<lparr>s_id = 4, series_name = ''Alex Rider'', s_author = None, total_books = 0\<rparr>,
        \<lparr>s_id = 5, series_name = ''Dune'', s_author = None, total_books = 0\<rparr>])
   \<and> list_all (\<lambda>s. total_books s = 0)
        (series_tbl (snd (snd (match_all_audiobooks (\<lambda>l t a. (None, l))
           identical_100 identical_100
           (new_matcher (None :: unit option),
            \<lparr>audiobooks = [\<lparr>ab_id = 2, title = ''x'', author = None,
                          series_title = Some ''Dune'', series_index = None\<rparr>],
             series_tbl = [\<lparr>s_id = 4, series_name = ''Alex Rider'', s_author = None,
                             total_books = 0\<rparr>],
             matches = []\<rparr>)))))"
    by simp
  from r1 r2 show ?thesis by blast
qed

theorem pipeline_precedence_witness:
  "matches (snd (snd (match_one
      (\<lambda>l t a. (Some \<lparr>res_series_name = Some ''Robot'', res_series_index = None\<rparr>, l))
      identical_100 identical_100
      (new_matcher (Some ()), \<lparr>audiobooks = [], series_tbl = [], matches = []\<rparr>)
      \<lparr>ab_id = 1, title = ''I #3'', author = None, series_title = Some ''Foundation'',
        series_index = None\<rparr>)))
    = [\<lparr>m_id = 1, audiobook_id = 1, series_id = 1, confidence_score = 98,
        match_method = ''external_api'', user_approved = False, user_rejected = False\<rparr>]
   \<and> matches (snd (snd (match_one (\<lambda>l t a. (None, l)) identical_100 identical_100
      (new_matcher (None :: unit option), \<lparr>audiobooks = [], series_tbl = [], matches = []\<rparr>)
      \<lparr>ab_id = 1, title = ''I #3'', author = None, series_title = Some ''Foundation'',
        series_index = None\<rparr>)))
    = [\<lparr>m_id = 1, audiobook_id = 1, series_id = 1, confidence_score = 95,
        match_method = ''metadata'', user_approved = False, user_rejected = False\<rparr>]
   \<and> matches (snd (snd (match_one (\<lambda>l t a. (None, l)) identical_100 identical_100
      (new_matcher (None :: unit option), \<lparr>audiobooks = [], series_tbl = [], matches = []\<rparr>)
      \<lparr>ab_id = 1, title = ''I #3'', author = None, series_title = None,
        series_index = None\<rparr>)))
    = [\<lparr>m_id = 1, audiobook_id = 1, series_id = 1, confidence_score = 85,
        match_method = ''title_pattern'', user_approved = False, user_rejected = False\<rparr>]
   \<and> snd (snd (match_one (\<lambda>l t a. (None, l)) identical_100 identical_100
      (new_matcher (None :: unit option), \<lparr>audiobooks = [], series_tbl = [], matches = []\<rparr>)
      \<lparr>ab_id = 1, title = ''I'', author = None, series_title = None,
        series_index = None\<rparr>))
    = \<lparr>audiobooks = [], series_tbl = [], matches = []\<rparr>"
proof -
  let ?lk = "\<lambda>(l::unit) (t::string) (a::string option).
               (Some \<lparr>res_series_name = Some ''Robot'', res_series_index = None\<rparr>, l)"
  let ?no = "\<lambda>(l::unit) (t::string) (a::string option). (None :: ext_result option, l)"
  let ?d = "\<lparr>audiobooks = [], series_tbl = [], matches = []\<rparr>"
  let ?a = "\<lparr>ab_id = 1, title = ''I #3'', author = None, series_title = Some ''Foundation'',
        series_index = None\<rparr>"
  let ?b = "\<lparr>ab_id = 1, title = ''I #3'', author = None, series_title = None,
        series_index = None\<rparr>"
  let ?c = "\<lparr>ab_id = 1, title = ''I'', author = None, series_title = None,
        series_index = None\<rparr>"
  have e1: "external_hit ?lk (new_matcher (Some ())) ?a
      = Some \<lparr>res_series_name = Some ''Robot'', res_series_index = None\<rparr>"
    by (simp add: external_hit_def new_matcher_def)
  have e2: "external_hit ?no (new_matcher None) ?a = None"
       "external_hit ?no (new_matcher None) ?b = None"
       "external_hit ?no (new_matcher None) ?c = None"
    by (simp_all add: external_hit_def new_matcher_def)
  have x1: "extract_series_info (title ?b) = Some (''I'', ''3'')"
    by code_simp
  have x2: "extract_series_info (title ?c) = None"
    by code_simp
  have u1: "match_audiobook_to_series (matches ?d) (ab_id ?a)
            (s_id (fst (find_or_create_series (series_tbl ?d) (the (Some ''Robot'')) (author ?a))))
            98 ''external_api''
      = [\<lparr>m_id = 1, audiobook_id = 1, series_id = 1, confidence_score = 98,
        match_method = ''external_api'', user_approved = False, user_rejected = False\<rparr>]"
    by (simp add: match_audiobook_to_series_def find_or_create_series_def next_id_def Let_def)
  have u2: "match_audiobook_to_series (matches ?d) (ab_id ?a)
            (s_id (fst (find_or_create_series (series_tbl ?d) (the (series_title ?a)) (author ?a))))
            95 ''metadata''
      = [\<lparr>m_id = 1, audiobook_id = 1, series_id = 1, confidence_score = 95,
        match_method = ''metadata'', user_approved = False, user_rejected = False\<rparr>]"
    by (simp add: match_audiobook_to_series_def find_or_create_series_def next_id_def Let_def)
  have u3: "match_audiobook_to_series (matches ?d) (ab_id ?b)
            (s_id (fst (find_or_create_series (series_tbl ?d) ''I'' (author ?b))))
            85 ''title_pattern''
      = [\<lparr>m_id = 1, audiobook_id = 1, series_id = 1, confidence_score = 85,
        match_method = ''title_pattern'', user_approved = False, user_rejected = False\<rparr>]"
    by (simp add: match_audiobook_to_series_def find_or_create_series_def next_id_def Let_def)
  have u4: "fuzzy_match_to_existing_series identical_100 identical_100
        (confidence_threshold (new_matcher (None :: unit option))) ?d ?c = ?d"
    by (simp add: fuzzy_match_to_existing_series_def fuzzy_best_def)
  from e1 u1 pipeline_precedence [of ?lk "new_matcher (Some ())" ?a
      "\<lparr>res_series_name = Some ''Robot'', res_series_index = None\<rparr>" identical_100 identical_100 ?d]
  have r1: "matches (snd (snd (match_one ?lk identical_100 identical_100
      (new_matcher (Some ()), ?d) ?a)))
    = [\<lparr>m_id = 1, audiobook_id = 1, series_id = 1, confidence_score = 98,
        match_method = ''external_api'', user_approved = False, user_rejected = False\<rparr>]"
    by simp
  from e2(1) u2 pipeline_precedence [of ?no "new_matcher None" ?a _ identical_100 identical_100 ?d]
  have r2: "matches (snd (snd (match_one ?no identical_100 identical_100
      (new_matcher None, ?d) ?a)))
    = [\<lparr>m_id = 1, audiobook_id = 1, series_id = 1, confidence_score = 95,
        match_method = ''metadata'', user_approved = False, user_rejected = False\<rparr>]"
    by simp
  from e2(2) x1 u3 pipeline_precedence [of ?no "new_matcher None" ?b _ identical_100 identical_100 ?d
      "''I''" "''3''"]
  have r3: "matches (snd (snd (match_one ?no identical_100 identical_100
      (new_matcher None, ?d) ?b)))
    = [\<lparr>m_id = 1, audiobook_id = 1, series_id = 1, confidence_score = 85,
        match_method = ''title_pattern'', user_approved = False, user_rejected = False\<rparr>]"
    by simp
  from e2(3) x2 u4 pipeline_precedence [of ?no "new_matcher None" ?c _ identical_100 identical_100 ?d]
  have r4: "snd (snd (match_one ?no identical_100 identical_100 (new_matcher None, ?d) ?c)) = ?d"
    by simp
  from r1 r2 r3 r4 show ?thesis by blast
qed

end
